theory Spec2Isabelle
  imports Complex_Main
begin

section \<open>Identifier resolution of the Mezon MCP server (src/index.ts)\<close>

text \<open>
  The program is one TypeScript module. Its decision logic is in \<open>findClan\<close> (the server
  resolver), \<open>findChannel\<close> (the channel resolver), the two zod schemas, the
  \<open>CallToolRequestSchema\<close> handler and \<open>main\<close>. Everything else is the platform client
  (\<open>mezon-sdk\<close>), the MCP SDK, zod and the Node.js runtime: they are not part of the module
  and enter the model as parameters (the function \<open>toLowerCase\<close>, the record \<open>client\<close>,
  the record \<open>env\<close>) or as the documented behaviour of the JavaScript construct the
  module uses.

  \<^item> An \<open>await\<close> either yields a value or throws: \<open>'a awaited\<close>.
  \<^item> A \<open>throw\<close> is the \<open>Inl\<close> of a sum; every function that awaits returns the list of
    calls it made on its collaborators together with its result (\<open>'a io\<close>).
  \<^item> The identifiers \<open>Server\<close> and \<open>TextChannel\<close> are used by the module without being
    imported; they are read as the MCP SDK's server class and the platform's class of
    text-capable channels (\<open>is_TextChannel\<close>).
\<close>

subsection \<open>Strings\<close>

text \<open>
  A JavaScript string is a sequence of UTF-16 code units; a \<open>string\<close> of the model
  stands for it by its UTF-8 encoding (one character for each ASCII code unit). The
  module compares strings, concatenates them, tests them for emptiness and replaces
  the first \<open>#\<close>, and each of these gives the same result on the encodings.

  \<open>String.prototype.toLowerCase\<close> is JavaScript's: it follows the Unicode case
  mappings and is not a map over the single characters. It is a parameter,
  \<open>toLowerCase :: string \<Rightarrow> string\<close>, of every function below that lower-cases, and
  nothing is assumed of it.
\<close>

text \<open>
  \<open>s.replace(p, r)\<close> with a one-character string pattern \<open>p\<close>: only the first occurrence
  of \<open>p\<close> is replaced. (The replacement string of the module is empty, so the \<open>$\<close> patterns
  of \<open>replace\<close> play no part.)
\<close>

fun replace :: "char \<Rightarrow> string \<Rightarrow> string \<Rightarrow> string" where
  "replace p r [] = []"
| "replace p r (c # cs) = (if c = p then r @ cs else c # replace p r cs)"

text \<open>\<open>Array.prototype.join\<close>.\<close>

fun join :: "string \<Rightarrow> string list \<Rightarrow> string" where
  "join sep [] = []"
| "join sep [x] = x"
| "join sep (x # y # ys) = x @ sep @ join sep (y # ys)"

text \<open>The template \<open>"${s}"\<close>: \<open>s\<close> between two double quotes.\<close>

definition quoted :: "string \<Rightarrow> string" where
  "quoted s = CHR 0x22 # s @ [CHR 0x22]"

subsection \<open>The directory client\<close>

text \<open>
  A channel as the module reads it: \<open>channel.id\<close>, \<open>channel.name\<close>,
  \<open>channel instanceof TextChannel\<close>, and the two fields it reads through the reference
  \<open>channel.guild\<close> (\<open>channel.guild.id\<close>, \<open>channel.guild.name\<close>).
\<close>

record channel =
  channel_id :: string
  channel_name :: string
  is_TextChannel :: bool
  guild_id :: string
  guild_name :: string

text \<open>A server (clan, guild): \<open>g.id\<close>, \<open>g.name\<close> and \<open>g.channels.cache\<close>.\<close>

record clan =
  clan_id :: string
  clan_name :: string
  channels_cache :: "channel list"

text \<open>A message as the read handler reads it: \<open>msg.author.tag\<close>, \<open>msg.content\<close> and
  \<open>msg.createdAt.toISOString()\<close>.\<close>

record message =
  author_tag :: string
  content :: string
  createdAt_toISOString :: string

text \<open>The outcome of an \<open>await\<close>: the value, or the error thrown.\<close>

datatype 'a awaited = Resolves 'a | Rejects string

text \<open>
  The client. \<open>clans\<close> is the collection \<open>client.clans\<close> in its iteration order
  (\<open>size\<close> is its length, \<open>first()\<close> its head, \<open>values()\<close> the list itself). The
  fetches are the platform's: a fetch resolves with an object, resolves with nothing
  (\<open>undefined\<close> or \<open>null\<close>, here \<open>None\<close>) or throws. \<open>channel_send\<close> resolves with
  the ID of the message sent, \<open>messages_fetch\<close> with the messages in the order
  \<open>messages.values()\<close> iterates them.
\<close>

record client =
  clans :: "clan list"
  clans_fetch :: "string \<Rightarrow> clan option awaited"
  channels_fetch :: "string \<Rightarrow> channel option awaited"
  channel_send :: "channel \<Rightarrow> string \<Rightarrow> string awaited"
  messages_fetch :: "channel \<Rightarrow> rat \<Rightarrow> message list awaited"

subsection \<open>Errors and effects\<close>

text \<open>A zod issue: the path of the field and the issue code.\<close>

datatype issue_code = invalid_type | too_small | too_big

type_synonym issue = "string list \<times> issue_code"

text \<open>
  One constructor for each \<open>throw\<close> of the module, carrying the values its message
  interpolates; \<open>Thrown\<close> is an error of a collaborator that the handler rethrows.
  \<open>error_message\<close> below is the message of the \<open>Error\<close> object.
\<close>

datatype error =
    MultiServerNoDefault "string list"
  | ServerNotFound string "string list"
  | ServerAmbiguous string "(string \<times> string) list"
  | ServerNotFoundBare string
  | ChannelNotFound string string "string list"
  | ChannelAmbiguous string string "(string \<times> string) list"
  | WrongType string string
  | UnknownTool string
  | InvalidArguments "issue list"
  | Thrown string

text \<open>The calls a function makes on its collaborators, in order; the last two are what
  Node.js itself prints on the standard error stream for a rejection that nothing
  handles (the uncaught error, or a warning that names it).\<close>

datatype effect =
    ClansFetch string
  | ChannelsFetch string
  | ChannelSend string string
  | MessagesFetch string rat
  | Login string
  | Connect
  | ConsoleError string
  | ProcessExit nat
  | NodePrintsError string
  | NodePrintsWarning string

type_synonym 'a io = "effect list \<times> (error + 'a)"

subsection \<open>findClan (lines 18 to 52)\<close>

text \<open>Lines 20 to 27: no identifier (\<open>!guildIdentifier\<close>).\<close>

definition findClan_unspecified :: "client \<Rightarrow> clan io" where
  "findClan_unspecified client =
     (if length (clans client) = 1 then ([], Inr (hd (clans client)))
      else ([], Inl (MultiServerNoDefault (map clan_name (clans client)))))"

text \<open>Lines 36 to 49: the \<open>catch\<close> block, the search by name (\<open>found\<close> is the
  filtered collection the source calls \<open>clans\<close>).\<close>

definition findClan_by_name ::
  "(string \<Rightarrow> string) \<Rightarrow> client \<Rightarrow> string \<Rightarrow> error + clan" where
  "findClan_by_name toLowerCase client guildIdentifier =
     (let found = filter (\<lambda>g. toLowerCase (clan_name g) = toLowerCase guildIdentifier)
                    (clans client)
      in if length found = 0 then
           Inl (ServerNotFound guildIdentifier (map clan_name (clans client)))
         else if length found > 1 then
           Inl (ServerAmbiguous guildIdentifier (map (\<lambda>g. (clan_name g, clan_id g)) found))
         else Inr (hd found))"

text \<open>
  \<open>!guildIdentifier\<close> holds for \<open>undefined\<close> and for the empty string. A fetch that
  resolves with an object returns it; one that resolves with nothing leaves the \<open>try\<close>
  and reaches line 51; one that throws enters the \<open>catch\<close>.
\<close>

definition findClan ::
  "(string \<Rightarrow> string) \<Rightarrow> client \<Rightarrow> string option \<Rightarrow> clan io" where
  "findClan toLowerCase client guildIdentifier =
     (case guildIdentifier of
        None \<Rightarrow> findClan_unspecified client
      | Some ident \<Rightarrow>
          if ident = [] then findClan_unspecified client
          else (case clans_fetch client ident of
                  Resolves (Some guild) \<Rightarrow> ([ClansFetch ident], Inr guild)
                | Resolves None \<Rightarrow> ([ClansFetch ident], Inl (ServerNotFoundBare ident))
                | Rejects _ \<Rightarrow>
                    ([ClansFetch ident], findClan_by_name toLowerCase client ident)))"

subsection \<open>findChannel (lines 55 to 86)\<close>

text \<open>Lines 67 to 70: the predicate of the filter.\<close>

definition channel_matches :: "(string \<Rightarrow> string) \<Rightarrow> string \<Rightarrow> channel \<Rightarrow> bool" where
  "channel_matches toLowerCase channelIdentifier channel =
     (is_TextChannel channel \<and>
      (toLowerCase (channel_name channel) = toLowerCase channelIdentifier \<or>
       toLowerCase (channel_name channel)
         = replace (CHR ''#'') [] (toLowerCase channelIdentifier)))"

text \<open>Lines 66 to 83: the \<open>catch\<close> block, the search by name in the resolved server
  (\<open>found\<close> is the filtered collection the source calls \<open>channels\<close>).\<close>

definition findChannel_by_name ::
  "(string \<Rightarrow> string) \<Rightarrow> clan \<Rightarrow> string \<Rightarrow> error + channel" where
  "findChannel_by_name toLowerCase guild channelIdentifier =
     (let found = filter (channel_matches toLowerCase channelIdentifier)
                    (channels_cache guild)
      in if length found = 0 then
           Inl (ChannelNotFound channelIdentifier (clan_name guild)
                  (map channel_name (filter is_TextChannel (channels_cache guild))))
         else if length found > 1 then
           Inl (ChannelAmbiguous channelIdentifier (clan_name guild)
                  (map (\<lambda>c. (channel_name c, channel_id c)) found))
         else Inr (hd found))"

text \<open>
  The fetch by ID is made for every identifier. When it resolves, its result is returned
  if it is a text channel of the resolved server; otherwise control leaves the \<open>try\<close>
  and reaches line 85. Only a fetch that throws enters the \<open>catch\<close>.
\<close>

definition findChannel ::
  "(string \<Rightarrow> string) \<Rightarrow> client \<Rightarrow> string \<Rightarrow> string option \<Rightarrow> channel io" where
  "findChannel toLowerCase client channelIdentifier guildIdentifier =
     (case findClan toLowerCase client guildIdentifier of
        (es, Inl e) \<Rightarrow> (es, Inl e)
      | (es, Inr guild) \<Rightarrow>
          (case channels_fetch client channelIdentifier of
             Resolves (Some channel) \<Rightarrow>
               if is_TextChannel channel \<and> guild_id channel = clan_id guild
               then (es @ [ChannelsFetch channelIdentifier], Inr channel)
               else (es @ [ChannelsFetch channelIdentifier],
                     Inl (WrongType channelIdentifier (clan_name guild)))
           | Resolves None \<Rightarrow>
               (es @ [ChannelsFetch channelIdentifier],
                Inl (WrongType channelIdentifier (clan_name guild)))
           | Rejects _ \<Rightarrow>
               (es @ [ChannelsFetch channelIdentifier],
                findChannel_by_name toLowerCase guild channelIdentifier)))"

subsection \<open>Messages of the errors\<close>

text \<open>
  The message of each \<open>Error\<close> the module constructs, as its template string builds it.
  The text of a zod issue is zod's own and is the parameter \<open>zod_message\<close>.
\<close>

fun error_message :: "(issue \<Rightarrow> string) \<Rightarrow> error \<Rightarrow> string" where
  "error_message zod_message (MultiServerNoDefault names) =
     ''Bot is in multiple servers. Please specify server name or ID. Available servers: ''
       @ join '', '' (map quoted names)"
| "error_message zod_message (ServerNotFound ident names) =
     ''Clan '' @ quoted ident @ '' not found. Available servers: ''
       @ join '', '' (map quoted names)"
| "error_message zod_message (ServerAmbiguous ident found) =
     ''Multiple servers found with name '' @ quoted ident @ '': ''
       @ join '', '' (map (\<lambda>(name, ident'). name @ '' (ID: '' @ ident' @ '')'') found)
       @ ''. Please specify the server ID.''"
| "error_message zod_message (ServerNotFoundBare ident) =
     ''Clan '' @ quoted ident @ '' not found''"
| "error_message zod_message (ChannelNotFound ident server names) =
     ''Channel '' @ quoted ident @ '' not found in server '' @ quoted server
       @ ''. Available channels: '' @ join '', '' (map (\<lambda>name. quoted (''#'' @ name)) names)"
| "error_message zod_message (ChannelAmbiguous ident server found) =
     ''Multiple channels found with name '' @ quoted ident @ '' in server '' @ quoted server
       @ '': '' @ join '', '' (map (\<lambda>(name, ident'). ''#'' @ name @ '' ('' @ ident' @ '')'') found)
       @ ''. Please specify the channel ID.''"
| "error_message zod_message (WrongType ident server) =
     ''Channel '' @ quoted ident @ '' is not a text channel or not found in server ''
       @ quoted server"
| "error_message zod_message (UnknownTool name) = ''Unknown tool: '' @ name"
| "error_message zod_message (InvalidArguments issues) =
     ''Invalid arguments: ''
       @ join '', '' (map (\<lambda>e. join ''.'' (fst e) @ '': '' @ zod_message e) issues)"
| "error_message zod_message (Thrown text) = text"

subsection \<open>The schemas (lines 89 to 99)\<close>

text \<open>The arguments of a tool call are a JSON object, or absent. A JSON number is a
  rational: the schema compares it with 1 and 100 only.\<close>

datatype json =
    JNull
  | JBool bool
  | JNum rat
  | JStr string
  | JArr "json list"
  | JObj "(string \<times> json) list"

type_synonym arguments = "(string \<rightharpoonup> json) option"

text \<open>\<open>z.string()\<close>, \<open>z.string().optional()\<close> and
  \<open>z.number().min(1).max(100).default(50)\<close>, each applied to the value of the key
  \<open>key\<close> (\<open>None\<close> when the key is absent).\<close>

definition z_string :: "string \<Rightarrow> json option \<Rightarrow> issue list + string" where
  "z_string key v =
     (case v of Some (JStr s) \<Rightarrow> Inr s | _ \<Rightarrow> Inl [([key], invalid_type)])"

definition z_string_optional :: "string \<Rightarrow> json option \<Rightarrow> issue list + string option" where
  "z_string_optional key v =
     (case v of
        None \<Rightarrow> Inr None
      | Some (JStr s) \<Rightarrow> Inr (Some s)
      | _ \<Rightarrow> Inl [([key], invalid_type)])"

definition z_number_min_max_default :: "string \<Rightarrow> json option \<Rightarrow> issue list + rat" where
  "z_number_min_max_default key v =
     (case v of
        None \<Rightarrow> Inr 50
      | Some (JNum n) \<Rightarrow>
          if n < 1 then Inl [([key], too_small)]
          else if n > 100 then Inl [([key], too_big)]
          else Inr n
      | _ \<Rightarrow> Inl [([key], invalid_type)])"

definition issues_of :: "issue list + 'a \<Rightarrow> issue list" where
  "issues_of r = (case r of Inl issues \<Rightarrow> issues | Inr _ \<Rightarrow> [])"

record send_message_args =
  send_server :: "string option"
  send_channel :: string
  send_message :: string

record read_messages_args =
  read_server :: "string option"
  read_channel :: string
  read_limit :: rat

text \<open>\<open>z.object({...}).parse(args)\<close>: every field is checked, in the order of the shape,
  and the issues of all fields are thrown together.\<close>

definition SendMessageSchema_parse :: "arguments \<Rightarrow> issue list + send_message_args" where
  "SendMessageSchema_parse args =
     (case args of
        None \<Rightarrow> Inl [([], invalid_type)]
      | Some obj \<Rightarrow>
          (case (z_string_optional ''server'' (obj ''server''),
                 z_string ''channel'' (obj ''channel''),
                 z_string ''message'' (obj ''message'')) of
             (Inr s, Inr c, Inr m) \<Rightarrow>
               Inr \<lparr>send_server = s, send_channel = c, send_message = m\<rparr>
           | (rs, rc, rm) \<Rightarrow> Inl (issues_of rs @ issues_of rc @ issues_of rm)))"

definition ReadMessagesSchema_parse :: "arguments \<Rightarrow> issue list + read_messages_args" where
  "ReadMessagesSchema_parse args =
     (case args of
        None \<Rightarrow> Inl [([], invalid_type)]
      | Some obj \<Rightarrow>
          (case (z_string_optional ''server'' (obj ''server''),
                 z_string ''channel'' (obj ''channel''),
                 z_number_min_max_default ''limit'' (obj ''limit'')) of
             (Inr s, Inr c, Inr l) \<Rightarrow>
               Inr \<lparr>read_server = s, read_channel = c, read_limit = l\<rparr>
           | (rs, rc, rl) \<Rightarrow> Inl (issues_of rs @ issues_of rc @ issues_of rl)))"

subsection \<open>The tool handler (lines 168 to 220)\<close>

text \<open>
  The result of a call is one text content. For \<open>read-messages\<close> the text is
  \<open>JSON.stringify(formattedMessages, null, 2)\<close>: \<open>JsonText j\<close> stands for the
  serialization of the JSON value \<open>j\<close>.
\<close>

datatype tool_content = Text string | JsonText json

text \<open>Lines 191 to 197: the projection of one message.\<close>

definition formatMessage :: "channel \<Rightarrow> message \<Rightarrow> json" where
  "formatMessage channel msg =
     JObj [(''channel'', JStr (''#'' @ channel_name channel)),
           (''server'', JStr (guild_name channel)),
           (''author'', JStr (author_tag msg)),
           (''content'', JStr (content msg)),
           (''timestamp'', JStr (createdAt_toISOString msg))]"

text \<open>
  Lines 173 to 184. The schema parses \<open>server\<close>, the handler destructures \<open>channel\<close> and
  \<open>message\<close> only and calls \<open>findChannel(channelIdentifier)\<close> with one argument. A
  \<open>ZodError\<close> is rethrown as the \<open>Invalid arguments\<close> error of lines 211 to 217, any other
  error as it is.
\<close>

definition send_message_tool ::
  "(string \<Rightarrow> string) \<Rightarrow> client \<Rightarrow> arguments \<Rightarrow> tool_content io" where
  "send_message_tool toLowerCase client args =
     (case SendMessageSchema_parse args of
        Inl issues \<Rightarrow> ([], Inl (InvalidArguments issues))
      | Inr a \<Rightarrow>
          (case findChannel toLowerCase client (send_channel a) None of
             (es, Inl e) \<Rightarrow> (es, Inl e)
           | (es, Inr channel) \<Rightarrow>
               (case channel_send client channel (send_message a) of
                  Rejects e \<Rightarrow>
                    (es @ [ChannelSend (channel_id channel) (send_message a)], Inl (Thrown e))
                | Resolves sent_id \<Rightarrow>
                    (es @ [ChannelSend (channel_id channel) (send_message a)],
                     Inr (Text (''Message sent successfully to #'' @ channel_name channel
                                @ '' in '' @ guild_name channel
                                @ ''. Message ID: '' @ sent_id))))))"

text \<open>Lines 186 to 205.\<close>

definition read_messages_tool ::
  "(string \<Rightarrow> string) \<Rightarrow> client \<Rightarrow> arguments \<Rightarrow> tool_content io" where
  "read_messages_tool toLowerCase client args =
     (case ReadMessagesSchema_parse args of
        Inl issues \<Rightarrow> ([], Inl (InvalidArguments issues))
      | Inr a \<Rightarrow>
          (case findChannel toLowerCase client (read_channel a) None of
             (es, Inl e) \<Rightarrow> (es, Inl e)
           | (es, Inr channel) \<Rightarrow>
               (case messages_fetch client channel (read_limit a) of
                  Rejects e \<Rightarrow>
                    (es @ [MessagesFetch (channel_id channel) (read_limit a)], Inl (Thrown e))
                | Resolves messages \<Rightarrow>
                    (es @ [MessagesFetch (channel_id channel) (read_limit a)],
                     Inr (JsonText (JArr (map (formatMessage channel) messages)))))))"

text \<open>The \<open>switch\<close> on the tool name.\<close>

definition CallTool ::
  "(string \<Rightarrow> string) \<Rightarrow> client \<Rightarrow> string \<Rightarrow> arguments \<Rightarrow> tool_content io" where
  "CallTool toLowerCase client name args =
     (if name = ''send-message'' then send_message_tool toLowerCase client args
      else if name = ''read-messages'' then read_messages_tool toLowerCase client args
      else ([], Inl (UnknownTool name)))"

subsection \<open>Startup (lines 228 to 249)\<close>






subsection \<open>Consistency of the directory\<close>

text \<open>
  \<open>channel.guild\<close> refers to the server that owns the channel: a cached channel of a
  known server carries the ID and the name of that server, and a fetched channel that
  carries the ID of a known server carries its name.
\<close>

definition guild_references_consistent :: "client \<Rightarrow> bool" where
  "guild_references_consistent client \<longleftrightarrow>
     (\<forall>g \<in> set (clans client). \<forall>c \<in> set (channels_cache g).
        guild_id c = clan_id g \<and> guild_name c = clan_name g) \<and>
     (\<forall>ident c. channels_fetch client ident = Resolves (Some c) \<longrightarrow>
        (\<forall>g \<in> set (clans client). guild_id c = clan_id g \<longrightarrow> guild_name c = clan_name g))"

subsection \<open>Examples\<close>

text \<open>
  The closed theorems below are about strings of ASCII characters. On these,
  \<open>String.prototype.toLowerCase\<close> replaces each of the letters \<open>A\<close> to \<open>Z\<close> by its small
  letter and leaves every other character as it is; \<open>toLowerCase_ascii\<close> is that
  function, and stands for \<open>toLowerCase\<close> on such strings only.
\<close>

definition toLowerCase_ascii_char :: "char \<Rightarrow> char" where
  "toLowerCase_ascii_char c =
     (case map_of (zip ''ABCDEFGHIJKLMNOPQRSTUVWXYZ'' ''abcdefghijklmnopqrstuvwxyz'') c of
        Some l \<Rightarrow> l
      | None \<Rightarrow> c)"

definition toLowerCase_ascii :: "string \<Rightarrow> string" where
  "toLowerCase_ascii s = map toLowerCase_ascii_char s"

text \<open>
  An example platform over given caches: a fetch by ID
  resolves with the cached object of that ID and throws when there is none, a send
  resolves with the message ID \<open>M1\<close>, and a fetch of messages resolves with the first
  \<open>limit\<close> (rounded down) of the given messages and throws for a negative limit.
\<close>

definition directory :: "clan list \<Rightarrow> message list \<Rightarrow> client" where
  "directory gs ms =
     \<lparr>clans = gs,
      clans_fetch = (\<lambda>ident. case find (\<lambda>g. clan_id g = ident) gs of
                               Some g \<Rightarrow> Resolves (Some g)
                             | None \<Rightarrow> Rejects ''Unknown clan''),
      channels_fetch = (\<lambda>ident. case find (\<lambda>c. channel_id c = ident)
                                         (concat (map channels_cache gs)) of
                                  Some c \<Rightarrow> Resolves (Some c)
                                | None \<Rightarrow> Rejects ''Unknown channel''),
      channel_send = (\<lambda>c text. Resolves ''M1''),
      messages_fetch = (\<lambda>c limit. if limit < 0 then Rejects ''Invalid limit''
                                  else Resolves (take (nat \<lfloor>limit\<rfloor>) ms))\<rparr>"

definition text_channel :: "string \<Rightarrow> string \<Rightarrow> clan \<Rightarrow> channel" where
  "text_channel ident name g =
     \<lparr>channel_id = ident, channel_name = name, is_TextChannel = True,
      guild_id = clan_id g, guild_name = clan_name g\<rparr>"

definition with_channels :: "clan \<Rightarrow> (clan \<Rightarrow> channel) list \<Rightarrow> clan" where
  "with_channels g cs = g\<lparr>channels_cache := map (\<lambda>c. c g) cs\<rparr>"

text \<open>The server Acme (ID S1) with the text channels general (C1) and random (C2).\<close>

definition acme :: clan where
  "acme = with_channels \<lparr>clan_id = ''S1'', clan_name = ''Acme'', channels_cache = []\<rparr>
            [text_channel ''C1'' ''general'', text_channel ''C2'' ''random'']"

text \<open>The server Beta (ID S2) with the text channel general (C3).\<close>

definition beta :: clan where
  "beta = with_channels \<lparr>clan_id = ''S2'', clan_name = ''Beta'', channels_cache = []\<rparr>
            [text_channel ''C3'' ''general'']"

text \<open>Two servers with the name Test (IDs S1 and S2), and the server Delta (ID S3).\<close>

definition test1 :: clan where
  "test1 = \<lparr>clan_id = ''S1'', clan_name = ''Test'', channels_cache = []\<rparr>"

definition test2 :: clan where
  "test2 = \<lparr>clan_id = ''S2'', clan_name = ''Test'', channels_cache = []\<rparr>"

definition delta :: clan where
  "delta = \<lparr>clan_id = ''S3'', clan_name = ''Delta'', channels_cache = []\<rparr>"

text \<open>The server Acme whose text channel C7 is named 42, and the server Beta whose text
  channel lobby has the ID 42.\<close>

definition numbered :: clan where
  "numbered = with_channels \<lparr>clan_id = ''S1'', clan_name = ''Acme'', channels_cache = []\<rparr>
                [text_channel ''C7'' ''42'']"

definition lobby :: clan where
  "lobby = with_channels \<lparr>clan_id = ''S2'', clan_name = ''Beta'', channels_cache = []\<rparr>
             [text_channel ''42'' ''lobby'']"

text \<open>The server Acme with two text channels, named general (C1) and #general (C4).\<close>

definition hashed :: clan where
  "hashed = with_channels \<lparr>clan_id = ''S1'', clan_name = ''Acme'', channels_cache = []\<rparr>
              [text_channel ''C1'' ''general'', text_channel ''C4'' ''#general'']"

text \<open>The server Acme with the text channel \<open>a#b\<close> (C9).\<close>

definition punctuated :: clan where
  "punctuated = with_channels \<lparr>clan_id = ''S1'', clan_name = ''Acme'', channels_cache = []\<rparr>
                  [text_channel ''C9'' ''a#b'']"

definition hello :: message where
  "hello = \<lparr>author_tag = ''ann#1'', content = ''hello'',
            createdAt_toISOString = ''2025-01-01T00:00:00.000Z''\<rparr>"

definition bye :: message where
  "bye = \<lparr>author_tag = ''bob#2'', content = ''bye'',
          createdAt_toISOString = ''2025-01-01T00:00:01.000Z''\<rparr>"

text \<open>
  A platform that delivers three messages whatever the limit is, and a platform whose
  fetch of a channel resolves with the channel C1 of the server S1 under a name that
  the server no longer has.
\<close>

definition overdelivering :: client where
  "overdelivering =
     (directory [acme] [])\<lparr>messages_fetch := (\<lambda>c limit. Resolves [hello, bye, hello])\<rparr>"

definition stale :: client where
  "stale =
     (directory [acme] [hello])
       \<lparr>channels_fetch := (\<lambda>ident. Resolves (Some
            \<lparr>channel_id = ''C1'', channel_name = ''general'', is_TextChannel = True,
             guild_id = ''S1'', guild_name = ''Acme Ltd''\<rparr>))\<rparr>"

lemmas example_defs =
  directory_def text_channel_def with_channels_def acme_def beta_def test1_def test2_def
  delta_def numbered_def lobby_def hashed_def punctuated_def hello_def bye_def
  overdelivering_def stale_def toLowerCase_ascii_def toLowerCase_ascii_char_def

lemmas model_defs =
  findClan_def findClan_unspecified_def findClan_by_name_def findChannel_def
  findChannel_by_name_def channel_matches_def quoted_def

section \<open>Auxiliary facts\<close>

subsection \<open>Replacing the first occurrence\<close>

lemma replace_absent: "p \<notin> set s \<Longrightarrow> replace p r s = s"
  by (induction s) auto

lemma replace_first: "p \<notin> set xs \<Longrightarrow> replace p r (xs @ p # ys) = xs @ r @ ys"
  by (induction xs) auto

lemma channel_matches_hash_prefix:
  assumes "toLowerCase (CHR ''#'' # name) = CHR ''#'' # toLowerCase name"
    and "CHR ''#'' \<notin> set (toLowerCase name)"
  shows "channel_matches toLowerCase (CHR ''#'' # name) c \<longleftrightarrow>
           channel_matches toLowerCase name c \<or>
           (is_TextChannel c \<and>
            toLowerCase (channel_name c) = toLowerCase (CHR ''#'' # name))"
proof -
  have "replace (CHR ''#'') [] (toLowerCase name) = toLowerCase name"
    using assms(2) by (rule replace_absent)
  then show ?thesis
    by (auto simp: channel_matches_def assms(1))
qed

subsection \<open>What a successful resolution returns\<close>

lemma findClan_unspecified_Inr:
  assumes "findClan toLowerCase client None = (es, Inr guild)"
  shows "es = [] \<and> clans client = [guild]"
proof -
  from assms have l: "length (clans client) = 1" and h: "hd (clans client) = guild" and "es = []"
    by (auto simp: findClan_def findClan_unspecified_def split: if_splits)
  from l h have "clans client = [guild]"
    by (cases "clans client") auto
  with \<open>es = []\<close> show ?thesis by simp
qed

lemma findChannel_by_name_Inr:
  assumes "findChannel_by_name toLowerCase guild ident = Inr c"
  shows "c \<in> set (channels_cache guild) \<and> channel_matches toLowerCase ident c"
proof -
  let ?found = "filter (channel_matches toLowerCase ident) (channels_cache guild)"
  from assms have "?found \<noteq> []" and "\<not> 1 < length ?found" and "hd ?found = c"
    by (auto simp: findChannel_by_name_def Let_def split: if_splits)
  then have "?found = [c]"
    by (cases ?found) (auto simp del: filter.simps)
  then have "c \<in> set ?found"
    by (simp del: set_filter)
  then show ?thesis by simp
qed

text \<open>
  A channel that \<open>findChannel\<close> returns is a text channel, and it is either the
  fetched channel, carrying the ID of the resolved server, or a cached channel of the
  resolved server that matches the identifier.
\<close>

lemma findChannel_Inr:
  assumes "findChannel toLowerCase client ident server = (es, Inr c)"
  shows "\<exists>es' guild. findClan toLowerCase client server = (es', Inr guild) \<and>
           es = es' @ [ChannelsFetch ident] \<and> is_TextChannel c \<and>
           (channels_fetch client ident = Resolves (Some c) \<and> guild_id c = clan_id guild \<or>
            (\<exists>err. channels_fetch client ident = Rejects err) \<and>
            c \<in> set (channels_cache guild) \<and> channel_matches toLowerCase ident c)"
proof -
  obtain es' r where fc: "findClan toLowerCase client server = (es', r)"
    by (cases "findClan toLowerCase client server")
  with assms obtain guild where g: "r = Inr guild"
    by (cases r) (auto simp: findChannel_def)
  show ?thesis
  proof (cases "channels_fetch client ident")
    case (Resolves x)
    with assms fc g show ?thesis
      by (cases x) (auto simp: findChannel_def split: if_splits)
  next
    case (Rejects err)
    with assms fc g have "findChannel_by_name toLowerCase guild ident = Inr c"
      and "es = es' @ [ChannelsFetch ident]"
      by (auto simp: findChannel_def)
    with findChannel_by_name_Inr [of toLowerCase guild ident c] fc g Rejects show ?thesis
      by (auto simp: channel_matches_def)
  qed
qed

subsection \<open>The calls of the resolvers and of the handlers\<close>





subsection \<open>The example platform\<close>

lemma acme_consistent: "guild_references_consistent (directory [acme] ms)"
  by (auto simp: guild_references_consistent_def example_defs split: if_splits)

section \<open>The handlers and the server identifier\<close>

text \<open>
  A call that gives a server has the outcome of the same call without the server.
\<close>

lemma CallTool_server_unused:
  "CallTool toLowerCase client name (Some (obj(''server'' \<mapsto> JStr s)))
     = CallTool toLowerCase client name (Some (obj(''server'' := None)))"
proof -
  have 1: "send_message_tool toLowerCase client (Some (obj(''server'' \<mapsto> JStr s)))
             = send_message_tool toLowerCase client (Some (obj(''server'' := None)))"
    by (simp add: send_message_tool_def SendMessageSchema_parse_def z_string_optional_def
          issues_of_def split: sum.splits prod.splits awaited.splits)
  have 2: "read_messages_tool toLowerCase client (Some (obj(''server'' \<mapsto> JStr s)))
             = read_messages_tool toLowerCase client (Some (obj(''server'' := None)))"
    by (simp add: read_messages_tool_def ReadMessagesSchema_parse_def z_string_optional_def
          issues_of_def split: sum.splits prod.splits awaited.splits)
  from 1 2 show ?thesis
    by (simp add: CallTool_def)
qed

text \<open>
  C1. Both handlers drop the \<open>server\<close> argument: they call \<open>findChannel\<close> with the
  channel identifier alone, so the server is resolved as if none had been given. With
  Acme the only known server, \<open>send-message\<close> with \<open>server = "Beta"\<close> (no server
  resolves from it) sends to the channel general of Acme. With Acme and Beta known,
  \<open>findChannel\<close> scoped to \<open>S2\<close> finds the channel general of Beta, and both tools fail
  with MultiServerNoDefault for \<open>server = "S2"\<close>.
\<close>

theorem send_message_drops_server:
  "findClan toLowerCase_ascii (directory [acme] []) (Some ''Beta'')
     = ([ClansFetch ''Beta''], Inl (ServerNotFound ''Beta'' [''Acme''])) \<and>
   CallTool toLowerCase_ascii (directory [acme] []) ''send-message''
       (Some [''server'' \<mapsto> JStr ''Beta'', ''channel'' \<mapsto> JStr ''general'',
              ''message'' \<mapsto> JStr ''hi''])
     = ([ChannelsFetch ''general'', ChannelSend ''C1'' ''hi''],
        Inr (Text ''Message sent successfully to #general in Acme. Message ID: M1'')) \<and>
   findChannel toLowerCase_ascii (directory [acme, beta] []) ''general'' (Some ''S2'')
     = ([ClansFetch ''S2'', ChannelsFetch ''general''],
        Inr (text_channel ''C3'' ''general'' beta)) \<and>
   CallTool toLowerCase_ascii (directory [acme, beta] []) ''send-message''
       (Some [''server'' \<mapsto> JStr ''S2'', ''channel'' \<mapsto> JStr ''general'',
              ''message'' \<mapsto> JStr ''hi''])
     = ([], Inl (MultiServerNoDefault [''Acme'', ''Beta''])) \<and>
   CallTool toLowerCase_ascii (directory [acme, beta] []) ''read-messages''
       (Some [''server'' \<mapsto> JStr ''S2'', ''channel'' \<mapsto> JStr ''general''])
     = ([], Inl (MultiServerNoDefault [''Acme'', ''Beta'']))"
  by (simp add: CallTool_def send_message_tool_def read_messages_tool_def
        SendMessageSchema_parse_def ReadMessagesSchema_parse_def
        z_string_def z_string_optional_def z_number_min_max_default_def issues_of_def
        example_defs model_defs)

section \<open>The server resolver\<close>

text \<open>
  C2. \<open>resolveServer(undefined)\<close>: a directory that holds exactly one server returns it; a
  directory that holds more than one fails with MultiServerNoDefault, and the error
  carries the names of all known servers, which its message lists.
\<close>

theorem findClan_no_identifier:
  "(clans client = [g] \<longrightarrow> findClan toLowerCase client None = ([], Inr g)) \<and>
   (length (clans client) > 1 \<longrightarrow>
      findClan toLowerCase client None
        = ([], Inl (MultiServerNoDefault (map clan_name (clans client)))) \<and>
      error_message zod_message (MultiServerNoDefault (map clan_name (clans client)))
        = ''Bot is in multiple servers. Please specify server name or ID. Available servers: ''
            @ join '', '' (map (\<lambda>g. quoted (clan_name g)) (clans client)))"
  by (simp add: findClan_def findClan_unspecified_def comp_def)

theorem findClan_no_identifier_witness:
  "clans (directory [acme] []) = [acme] \<and>
   findClan toLowerCase_ascii (directory [acme] []) None = ([], Inr acme) \<and>
   length (clans (directory [acme, beta] [])) > 1 \<and>
   findClan toLowerCase_ascii (directory [acme, beta] []) None
     = ([], Inl (MultiServerNoDefault [''Acme'', ''Beta'']))"
  using findClan_no_identifier
          [where client = "directory [acme] []" and g = acme
             and toLowerCase = toLowerCase_ascii]
        findClan_no_identifier
          [where client = "directory [acme, beta] []" and toLowerCase = toLowerCase_ascii]
  by (simp add: example_defs)

text \<open>
  C3, as the code has it. For every server \<open>S\<close> whose ID is not the empty string and for
  which the fetch by ID resolves with \<open>S\<close>, \<open>resolveServer(S.id)\<close> returns \<open>S\<close> after
  that one fetch, whatever the names of the servers of the directory are. (An empty
  identifier is taken as no identifier by \<open>!guildIdentifier\<close>, and no fetch is made.)
\<close>

theorem findClan_by_id:
  assumes "clan_id S \<noteq> []"
    and "clans_fetch client (clan_id S) = Resolves (Some S)"
  shows "findClan toLowerCase client (Some (clan_id S)) = ([ClansFetch (clan_id S)], Inr S)"
  using assms by (simp add: findClan_def)

theorem findClan_by_id_witness:
  "clan_id test2 \<noteq> [] \<and>
   clans_fetch (directory [test1, test2] []) (clan_id test2) = Resolves (Some test2) \<and>
   findClan toLowerCase_ascii (directory [test1, test2] []) (Some ''S2'')
     = ([ClansFetch ''S2''], Inr test2)"
proof -
  have 1: "clan_id test2 \<noteq> []"
    by (simp add: example_defs)
  have 2: "clans_fetch (directory [test1, test2] []) (clan_id test2) = Resolves (Some test2)"
    by (simp add: example_defs)
  have 3: "clan_id test2 = ''S2''"
    by (simp add: example_defs)
  show ?thesis
    using 1 2 findClan_by_id [OF 1 2, where toLowerCase = toLowerCase_ascii]
    by (simp only: 3 simp_thms)
qed

text \<open>
  C3 as stated fails for a server whose ID is the empty string: the directory holds the
  server and its fetch by ID resolves with it, but \<open>resolveServer\<close> of its ID makes no
  fetch and fails with MultiServerNoDefault.
\<close>

theorem findClan_by_id_counterexample:
  "clans (directory [acme, \<lparr>clan_id = [], clan_name = ''Test'', channels_cache = []\<rparr>] [])
     = [acme, \<lparr>clan_id = [], clan_name = ''Test'', channels_cache = []\<rparr>] \<and>
   clans_fetch (directory [acme, \<lparr>clan_id = [], clan_name = ''Test'', channels_cache = []\<rparr>] [])
       (clan_id \<lparr>clan_id = [], clan_name = ''Test'', channels_cache = []\<rparr>)
     = Resolves (Some \<lparr>clan_id = [], clan_name = ''Test'', channels_cache = []\<rparr>) \<and>
   findClan toLowerCase_ascii
       (directory [acme, \<lparr>clan_id = [], clan_name = ''Test'', channels_cache = []\<rparr>] [])
       (Some (clan_id \<lparr>clan_id = [], clan_name = ''Test'', channels_cache = []\<rparr>))
     = ([], Inl (MultiServerNoDefault [''Acme'', ''Test'']))"
  by (simp add: example_defs model_defs)

text \<open>
  C4, as the code has it. For every non-empty identifier on which the fetch by ID
  throws, \<open>resolveServer\<close> compares the lower-case form of the identifier
  (\<open>toLowerCase\<close>) with the lower-case form of the name of every known server: no
  match fails with NotFound and the names of all known servers, one match returns that
  server, and more than one match fails with Ambiguous, whose message lists each match
  as \<open>name (ID: id)\<close>.
\<close>

theorem findClan_name_fallback:
  assumes "ident \<noteq> []"
    and "clans_fetch client ident = Rejects err"
  shows
    "(filter (\<lambda>g. toLowerCase (clan_name g) = toLowerCase ident) (clans client) = [] \<longrightarrow>
        findClan toLowerCase client (Some ident)
          = ([ClansFetch ident], Inl (ServerNotFound ident (map clan_name (clans client))))) \<and>
     (filter (\<lambda>g. toLowerCase (clan_name g) = toLowerCase ident) (clans client) = [g] \<longrightarrow>
        findClan toLowerCase client (Some ident) = ([ClansFetch ident], Inr g)) \<and>
     (length (filter (\<lambda>g. toLowerCase (clan_name g) = toLowerCase ident) (clans client)) > 1
        \<longrightarrow>
        findClan toLowerCase client (Some ident)
          = ([ClansFetch ident],
             Inl (ServerAmbiguous ident
                    (map (\<lambda>g. (clan_name g, clan_id g))
                       (filter (\<lambda>g. toLowerCase (clan_name g) = toLowerCase ident)
                          (clans client)))))) \<and>
     error_message zod_message (ServerNotFound ident (map clan_name (clans client)))
       = ''Clan '' @ quoted ident @ '' not found. Available servers: ''
           @ join '', '' (map (\<lambda>g. quoted (clan_name g)) (clans client)) \<and>
     error_message zod_message
         (ServerAmbiguous ident (map (\<lambda>g. (clan_name g, clan_id g)) found))
       = ''Multiple servers found with name '' @ quoted ident @ '': ''
           @ join '', '' (map (\<lambda>g. clan_name g @ '' (ID: '' @ clan_id g @ '')'') found)
           @ ''. Please specify the server ID.''"
  using assms by (simp add: findClan_def findClan_by_name_def Let_def comp_def)

theorem findClan_name_fallback_witness:
  "''TEST'' \<noteq> [] \<and>
   clans_fetch (directory [test1, test2, delta] []) ''TEST'' = Rejects ''Unknown clan'' \<and>
   findClan toLowerCase_ascii (directory [test1, test2, delta] []) (Some ''TEST'')
     = ([ClansFetch ''TEST''],
        Inl (ServerAmbiguous ''TEST'' [(''Test'', ''S1''), (''Test'', ''S2'')])) \<and>
   findClan toLowerCase_ascii (directory [test1, test2, delta] []) (Some ''delta'')
     = ([ClansFetch ''delta''], Inr delta) \<and>
   findClan toLowerCase_ascii (directory [test1, test2, delta] []) (Some ''Nope'')
     = ([ClansFetch ''Nope''], Inl (ServerNotFound ''Nope'' [''Test'', ''Test'', ''Delta'']))"
proof -
  let ?d = "directory [test1, test2, delta] []"
  let ?lc = toLowerCase_ascii
  have f: "clans_fetch ?d ''TEST'' = Rejects ''Unknown clan''"
          "clans_fetch ?d ''delta'' = Rejects ''Unknown clan''"
          "clans_fetch ?d ''Nope'' = Rejects ''Unknown clan''"
    by (simp_all add: example_defs)
  have n: "''TEST'' \<noteq> []" "''delta'' \<noteq> []" "''Nope'' \<noteq> []"
    by simp_all
  have m: "filter (\<lambda>g. ?lc (clan_name g) = ?lc ''TEST'') (clans ?d) = [test1, test2]"
          "filter (\<lambda>g. ?lc (clan_name g) = ?lc ''delta'') (clans ?d) = [delta]"
          "filter (\<lambda>g. ?lc (clan_name g) = ?lc ''Nope'') (clans ?d) = []"
          "map clan_name (clans ?d) = [''Test'', ''Test'', ''Delta'']"
    by (simp_all add: example_defs)
  have k: "clan_name test1 = ''Test''" "clan_id test1 = ''S1''"
          "clan_name test2 = ''Test''" "clan_id test2 = ''S2''"
    by (simp_all add: example_defs)
  show ?thesis
    using findClan_name_fallback
            [OF n(1) f(1), where g = delta and found = "[]" and zod_message = "\<lambda>i. []"
               and toLowerCase = ?lc]
          findClan_name_fallback
            [OF n(2) f(2), where g = delta and found = "[]" and zod_message = "\<lambda>i. []"
               and toLowerCase = ?lc]
          findClan_name_fallback
            [OF n(3) f(3), where g = delta and found = "[]" and zod_message = "\<lambda>i. []"
               and toLowerCase = ?lc]
    by (simp add: m f k)
qed

text \<open>
  C4 as stated fails in the format of the listing: for two servers named Test with the
  IDs S1 and S2 the message lists \<open>Test (ID: S1), Test (ID: S2)\<close>, not
  \<open>Test (S1), Test (S2)\<close>.
\<close>

theorem findClan_name_fallback_counterexample:
  \<open>findClan toLowerCase_ascii (directory [test1, test2] []) (Some ''Test'')
     = ([ClansFetch ''Test''],
        Inl (ServerAmbiguous ''Test'' [(''Test'', ''S1''), (''Test'', ''S2'')])) \<and>
   error_message (\<lambda>i. []) (ServerAmbiguous ''Test'' [(''Test'', ''S1''), (''Test'', ''S2'')])
     = ''Multiple servers found with name "Test": Test (ID: S1), Test (ID: S2). Please specify the server ID.'' \<and>
   error_message (\<lambda>i. []) (ServerAmbiguous ''Test'' [(''Test'', ''S1''), (''Test'', ''S2'')])
     \<noteq> ''Multiple servers found with name "Test": Test (S1), Test (S2). Please specify the server ID.''\<close>
  by (simp add: example_defs model_defs)

section \<open>The channel resolver\<close>

text \<open>
  C5, as the code has it. When the fetch of the channel by ID resolves, with nothing or
  with a channel that is not a text channel or carries the ID of another server than
  the resolved one, \<open>resolveChannel\<close> fails with WrongType at once and makes no search
  by name. The search by name over the channels of the resolved server is made only
  when the fetch throws.
\<close>

theorem findChannel_fetch_outcomes:
  assumes "findClan toLowerCase client server = (es, Inr guild)"
  shows
    "(channels_fetch client ident = Resolves None \<longrightarrow>
        findChannel toLowerCase client ident server
          = (es @ [ChannelsFetch ident], Inl (WrongType ident (clan_name guild)))) \<and>
     (channels_fetch client ident = Resolves (Some c) \<and>
      (\<not> is_TextChannel c \<or> guild_id c \<noteq> clan_id guild) \<longrightarrow>
        findChannel toLowerCase client ident server
          = (es @ [ChannelsFetch ident], Inl (WrongType ident (clan_name guild)))) \<and>
     (channels_fetch client ident = Rejects err \<longrightarrow>
        findChannel toLowerCase client ident server
          = (es @ [ChannelsFetch ident], findChannel_by_name toLowerCase guild ident))"
  using assms by (auto simp: findChannel_def)

theorem findChannel_fetch_outcomes_witness:
  "findClan toLowerCase_ascii (directory [numbered, lobby] []) (Some ''S1'')
     = ([ClansFetch ''S1''], Inr numbered) \<and>
   findChannel toLowerCase_ascii
       ((directory [numbered, lobby] [])\<lparr>channels_fetch := \<lambda>i. Resolves None\<rparr>)
       ''42'' (Some ''S1'')
     = ([ClansFetch ''S1'', ChannelsFetch ''42''], Inl (WrongType ''42'' ''Acme'')) \<and>
   findChannel toLowerCase_ascii (directory [numbered, lobby] []) ''42'' (Some ''S1'')
     = ([ClansFetch ''S1'', ChannelsFetch ''42''], Inl (WrongType ''42'' ''Acme'')) \<and>
   findChannel toLowerCase_ascii (directory [numbered, lobby] []) ''#42'' (Some ''S1'')
     = ([ClansFetch ''S1'', ChannelsFetch ''#42''], Inr (text_channel ''C7'' ''42'' numbered))"
proof -
  let ?d = "directory [numbered, lobby] []"
  let ?n = "?d\<lparr>channels_fetch := \<lambda>i. Resolves None\<rparr>"
  let ?lc = toLowerCase_ascii
  have g: "findClan ?lc ?d (Some ''S1'') = ([ClansFetch ''S1''], Inr numbered)"
          "findClan ?lc ?n (Some ''S1'') = ([ClansFetch ''S1''], Inr numbered)"
    by (simp_all add: example_defs findClan_def)
  have f: "channels_fetch ?n ''42'' = Resolves None"
          "channels_fetch ?d ''42'' = Resolves (Some (text_channel ''42'' ''lobby'' lobby))"
          "guild_id (text_channel ''42'' ''lobby'' lobby) \<noteq> clan_id numbered"
          "channels_fetch ?d ''#42'' = Rejects ''Unknown channel''"
          "findChannel_by_name ?lc numbered ''#42'' = Inr (text_channel ''C7'' ''42'' numbered)"
          "clan_name numbered = ''Acme''"
    by (simp_all add: example_defs model_defs)
  show ?thesis
    using findChannel_fetch_outcomes [OF g(2), where ident = "''42''"]
          findChannel_fetch_outcomes
            [OF g(1), where ident = "''42''" and c = "text_channel ''42'' ''lobby'' lobby"]
          findChannel_fetch_outcomes [OF g(1), where ident = "''#42''"]
    by (simp add: f g)
qed

text \<open>
  C5 as stated fails: in the server Acme the identifier \<open>42\<close> is the name of one text
  channel, so the search by name would return it, but the fetch by ID resolves with a
  channel of the server Beta and the resolution fails with WrongType.
\<close>

theorem findChannel_fetch_outcomes_counterexample:
  "findClan toLowerCase_ascii (directory [numbered, lobby] []) (Some ''S1'')
     = ([ClansFetch ''S1''], Inr numbered) \<and>
   channels_fetch (directory [numbered, lobby] []) ''42''
     = Resolves (Some (text_channel ''42'' ''lobby'' lobby)) \<and>
   guild_id (text_channel ''42'' ''lobby'' lobby) \<noteq> clan_id numbered \<and>
   findChannel_by_name toLowerCase_ascii numbered ''42''
     = Inr (text_channel ''C7'' ''42'' numbered) \<and>
   findChannel toLowerCase_ascii (directory [numbered, lobby] []) ''42'' (Some ''S1'')
     = ([ClansFetch ''S1'', ChannelsFetch ''42''], Inl (WrongType ''42'' ''Acme''))"
  by (simp add: example_defs model_defs)

text \<open>
  C6, as the code has it. Let the lower-case form of \<open>#name\<close> be \<open>#\<close> followed by the
  lower-case form of \<open>name\<close>, and let that form contain no \<open>#\<close>. Let the fetch by ID
  throw for \<open>name\<close> and for \<open>#name\<close>, and let no text channel of the resolved server have
  a name whose lower-case form is that of \<open>#name\<close>. Then the two identifiers match the
  same channels of the server, and one resolves to a channel exactly when the other
  resolves to it.
\<close>

theorem findChannel_hash_prefix:
  assumes "findClan toLowerCase client server = (es, Inr guild)"
    and "channels_fetch client name = Rejects e1"
    and "channels_fetch client (CHR ''#'' # name) = Rejects e2"
    and "toLowerCase (CHR ''#'' # name) = CHR ''#'' # toLowerCase name"
    and "CHR ''#'' \<notin> set (toLowerCase name)"
    and "\<forall>c \<in> set (channels_cache guild).
           is_TextChannel c \<longrightarrow>
             toLowerCase (channel_name c) \<noteq> toLowerCase (CHR ''#'' # name)"
  shows "filter (channel_matches toLowerCase (CHR ''#'' # name)) (channels_cache guild)
           = filter (channel_matches toLowerCase name) (channels_cache guild) \<and>
         (snd (findChannel toLowerCase client (CHR ''#'' # name) server) = Inr c \<longleftrightarrow>
          snd (findChannel toLowerCase client name server) = Inr c)"
proof -
  have same: "filter (channel_matches toLowerCase (CHR ''#'' # name)) (channels_cache guild)
                = filter (channel_matches toLowerCase name) (channels_cache guild)"
    using assms(6)
    by (intro filter_cong refl) (auto simp: channel_matches_hash_prefix [OF assms(4,5)])
  have a: "snd (findChannel toLowerCase client (CHR ''#'' # name) server)
             = findChannel_by_name toLowerCase guild (CHR ''#'' # name)"
    using assms(1,3) by (simp add: findChannel_def)
  have b: "snd (findChannel toLowerCase client name server)
             = findChannel_by_name toLowerCase guild name"
    using assms(1,2) by (simp add: findChannel_def)
  have "findChannel_by_name toLowerCase guild (CHR ''#'' # name) = Inr c \<longleftrightarrow>
        findChannel_by_name toLowerCase guild name = Inr c"
    by (simp add: findChannel_by_name_def same Let_def)
  with same a b show ?thesis by simp
qed

theorem findChannel_hash_prefix_witness:
  "findChannel toLowerCase_ascii (directory [acme] []) ''#General'' None
     = ([ChannelsFetch ''#General''], Inr (text_channel ''C1'' ''general'' acme)) \<and>
   findChannel toLowerCase_ascii (directory [acme] []) ''General'' None
     = ([ChannelsFetch ''General''], Inr (text_channel ''C1'' ''general'' acme))"
proof -
  let ?d = "directory [acme] []"
  let ?lc = toLowerCase_ascii
  have 1: "findClan ?lc ?d None = ([], Inr acme)"
    by (simp add: example_defs findClan_def findClan_unspecified_def)
  have 2: "channels_fetch ?d ''General'' = Rejects ''Unknown channel''"
    by (simp add: example_defs)
  have 3: "channels_fetch ?d (CHR ''#'' # ''General'') = Rejects ''Unknown channel''"
    by (simp add: example_defs)
  have 4: "?lc (CHR ''#'' # ''General'') = CHR ''#'' # ?lc ''General''"
    by (simp add: example_defs)
  have 5: "CHR ''#'' \<notin> set (?lc ''General'')"
    by (simp add: example_defs)
  have 6: "\<forall>c \<in> set (channels_cache acme).
             is_TextChannel c \<longrightarrow> ?lc (channel_name c) \<noteq> ?lc (CHR ''#'' # ''General'')"
    by (simp add: example_defs)
  have 7: "findChannel ?lc ?d ''General'' None
             = ([ChannelsFetch ''General''], Inr (text_channel ''C1'' ''general'' acme))"
    by (simp add: example_defs model_defs)
  have 8: "fst (findChannel ?lc ?d ''#General'' None) = [ChannelsFetch ''#General'']"
    by (simp add: example_defs model_defs)
  from findChannel_hash_prefix
         [OF 1 2 3 4 5 6, where c = "text_channel ''C1'' ''general'' acme"] 7
  have "snd (findChannel ?lc ?d ''#General'' None) = Inr (text_channel ''C1'' ''general'' acme)"
    by simp
  with 7 8 show ?thesis
    by (simp add: prod_eq_iff)
qed

text \<open>
  C6 as stated fails in a server with the text channels \<open>general\<close> and \<open>#general\<close>:
  \<open>general\<close> resolves to the first, \<open>#general\<close> matches both and fails with Ambiguous.
\<close>

theorem findChannel_hash_prefix_counterexample:
  "findChannel toLowerCase_ascii (directory [hashed] []) ''general'' None
     = ([ChannelsFetch ''general''], Inr (text_channel ''C1'' ''general'' hashed)) \<and>
   findChannel toLowerCase_ascii (directory [hashed] []) ''#general'' None
     = ([ChannelsFetch ''#general''],
        Inl (ChannelAmbiguous ''#general'' ''Acme''
               [(''general'', ''C1''), (''#general'', ''C4'')]))"
  by (simp add: example_defs model_defs)

text \<open>
  C10, as the code has it. \<open>replace\<close> removes the first \<open>#\<close> of the lower-case form of
  the identifier, wherever it is. So for every text channel, an identifier whose
  lower-case form is the lower-case form of the channel's name with one \<open>#\<close> inserted
  at a position that no \<open>#\<close> precedes matches the channel: the search by name in a
  server that holds the channel returns it, or fails with Ambiguous and lists it.
\<close>

theorem channel_matches_inserted_hash:
  assumes "is_TextChannel c"
    and "toLowerCase (channel_name c) = xs @ ys"
    and "toLowerCase ident = xs @ CHR ''#'' # ys"
    and "CHR ''#'' \<notin> set xs"
  shows "channel_matches toLowerCase ident c \<and>
         (c \<in> set (channels_cache guild) \<longrightarrow>
            findChannel_by_name toLowerCase guild ident = Inr c \<or>
            (\<exists>found. findChannel_by_name toLowerCase guild ident
                        = Inl (ChannelAmbiguous ident (clan_name guild) found) \<and>
                     (channel_name c, channel_id c) \<in> set found))"
proof -
  have "replace (CHR ''#'') [] (toLowerCase ident) = xs @ ys"
    using assms(3,4) by (simp add: replace_first)
  then have m: "channel_matches toLowerCase ident c"
    using assms(1,2) by (simp add: channel_matches_def)
  have r: "findChannel_by_name toLowerCase guild ident = Inr c \<or>
           (\<exists>found. findChannel_by_name toLowerCase guild ident
                       = Inl (ChannelAmbiguous ident (clan_name guild) found) \<and>
                    (channel_name c, channel_id c) \<in> set found)"
    if "c \<in> set (channels_cache guild)"
  proof -
    let ?found = "filter (channel_matches toLowerCase ident) (channels_cache guild)"
    from that m have mem: "c \<in> set ?found" by simp
    show ?thesis
    proof (cases "length ?found > 1")
      case True
      with mem show ?thesis
        by (auto simp: findChannel_by_name_def Let_def)
    next
      case False
      with mem have "?found = [c]"
        by (cases ?found) (auto simp del: filter.simps set_filter)
      then show ?thesis
        by (simp add: findChannel_by_name_def Let_def)
    qed
  qed
  from m r show ?thesis by blast
qed

theorem channel_matches_inserted_hash_witness:
  "toLowerCase_ascii ''GEN#eral'' = ''gen'' @ CHR ''#'' # ''eral'' \<and>
   toLowerCase_ascii (channel_name (text_channel ''C1'' ''general'' acme)) = ''gen'' @ ''eral'' \<and>
   channel_matches toLowerCase_ascii ''GEN#eral'' (text_channel ''C1'' ''general'' acme) \<and>
   findChannel_by_name toLowerCase_ascii acme ''GEN#eral''
     = Inr (text_channel ''C1'' ''general'' acme)"
proof -
  let ?lc = toLowerCase_ascii
  have 1: "is_TextChannel (text_channel ''C1'' ''general'' acme)"
    by (simp add: example_defs)
  have 2: "?lc (channel_name (text_channel ''C1'' ''general'' acme)) = ''gen'' @ ''eral''"
    by (simp add: example_defs)
  have 3: "?lc ''GEN#eral'' = ''gen'' @ CHR ''#'' # ''eral''"
    by (simp add: example_defs)
  have 4: "CHR ''#'' \<notin> set ''gen''"
    by simp
  have 5: "text_channel ''C1'' ''general'' acme \<in> set (channels_cache acme)"
    by (simp add: example_defs)
  have 6: "findChannel_by_name ?lc acme ''GEN#eral'' \<noteq> Inl e" for e
    by (simp add: example_defs model_defs)
  show ?thesis
    using channel_matches_inserted_hash [OF 1 2 3 4, where guild = acme] 2 3 5 6
    by auto
qed

text \<open>
  C10 as stated fails for a name that contains a \<open>#\<close> before the position of the
  insertion: the channel \<open>a#b\<close> is not matched by \<open>a#b#\<close>, since \<open>replace\<close> removes
  the first \<open>#\<close> and leaves \<open>ab#\<close>.
\<close>

theorem channel_matches_inserted_hash_counterexample:
  "\<not> channel_matches toLowerCase_ascii ''a#b#'' (text_channel ''C9'' ''a#b'' punctuated) \<and>
   findChannel_by_name toLowerCase_ascii punctuated ''a#b#''
     = Inl (ChannelNotFound ''a#b#'' ''Acme'' [''a#b''])"
  by (simp add: example_defs model_defs)

section \<open>The read handler\<close>

lemma ReadMessagesSchema_limit_issue:
  assumes "obj ''limit'' = Some (JNum n)" and "n < 1 \<or> 100 < n"
  shows "\<exists>issues. ReadMessagesSchema_parse (Some obj) = Inl issues \<and>
                  ([''limit''], if n < 1 then too_small else too_big) \<in> set issues"
  using assms
  by (auto simp: ReadMessagesSchema_parse_def z_number_min_max_default_def issues_of_def
           split: sum.splits)

text \<open>
  C7, as the code has it. The limit of \<open>read-messages\<close> is validated as a number
  between 1 and 100, with the default 50: a number below 1 or above 100 (so 0 and 150)
  fails the validation, with no call on the platform and whatever the directory holds;
  every number from 1 to 100 is accepted, whole or not; and a call without a limit is
  the call with the limit 50.
\<close>

theorem read_messages_limit:
  "(obj ''limit'' = Some (JNum n) \<and> (n < 1 \<or> 100 < n) \<longrightarrow>
      (\<exists>issues. CallTool toLowerCase client ''read-messages'' (Some obj)
                  = ([], Inl (InvalidArguments issues)) \<and>
                ([''limit''], if n < 1 then too_small else too_big) \<in> set issues)) \<and>
   (obj ''limit'' = Some (JNum n) \<and> 1 \<le> n \<and> n \<le> 100 \<longrightarrow>
      z_number_min_max_default ''limit'' (obj ''limit'') = Inr n) \<and>
   (obj ''limit'' = None \<longrightarrow>
      z_number_min_max_default ''limit'' (obj ''limit'') = Inr 50 \<and>
      CallTool toLowerCase client ''read-messages'' (Some obj)
        = CallTool toLowerCase client ''read-messages'' (Some (obj(''limit'' \<mapsto> JNum 50))))"
proof (intro conjI impI)
  assume a: "obj ''limit'' = Some (JNum n) \<and> (n < 1 \<or> 100 < n)"
  then obtain issues where
    "ReadMessagesSchema_parse (Some obj) = Inl issues"
    "([''limit''], if n < 1 then too_small else too_big) \<in> set issues"
    using ReadMessagesSchema_limit_issue [of obj n] by blast
  then show "\<exists>issues. CallTool toLowerCase client ''read-messages'' (Some obj)
                        = ([], Inl (InvalidArguments issues)) \<and>
                      ([''limit''], if n < 1 then too_small else too_big) \<in> set issues"
    by (simp add: CallTool_def read_messages_tool_def)
next
  assume "obj ''limit'' = Some (JNum n) \<and> 1 \<le> n \<and> n \<le> 100"
  then show "z_number_min_max_default ''limit'' (obj ''limit'') = Inr n"
    by (auto simp: z_number_min_max_default_def)
next
  assume "obj ''limit'' = None"
  then show "z_number_min_max_default ''limit'' (obj ''limit'') = Inr 50"
    by (simp add: z_number_min_max_default_def)
next
  assume "obj ''limit'' = None"
  then have "ReadMessagesSchema_parse (Some obj)
               = ReadMessagesSchema_parse (Some (obj(''limit'' \<mapsto> JNum 50)))"
    by (simp add: ReadMessagesSchema_parse_def z_number_min_max_default_def)
  then show "CallTool toLowerCase client ''read-messages'' (Some obj)
               = CallTool toLowerCase client ''read-messages''
                   (Some (obj(''limit'' \<mapsto> JNum 50)))"
    by (simp add: CallTool_def read_messages_tool_def)
qed

theorem read_messages_limit_witness:
  "CallTool toLowerCase_ascii (directory [acme] [hello, bye]) ''read-messages''
       (Some [''channel'' \<mapsto> JStr ''random'', ''limit'' \<mapsto> JNum 150])
     = ([], Inl (InvalidArguments [([''limit''], too_big)])) \<and>
   CallTool toLowerCase_ascii (directory [acme] [hello, bye]) ''read-messages''
       (Some [''channel'' \<mapsto> JStr ''random'', ''limit'' \<mapsto> JNum 0])
     = ([], Inl (InvalidArguments [([''limit''], too_small)])) \<and>
   z_number_min_max_default ''limit''
       ([''channel'' \<mapsto> JStr ''random'', ''limit'' \<mapsto> JNum 5] ''limit'') = Inr 5 \<and>
   CallTool toLowerCase_ascii (directory [acme] [hello, bye]) ''read-messages''
       (Some [''channel'' \<mapsto> JStr ''random''])
     = CallTool toLowerCase_ascii (directory [acme] [hello, bye]) ''read-messages''
         (Some [''channel'' \<mapsto> JStr ''random'', ''limit'' \<mapsto> JNum 50])"
proof -
  let ?d = "directory [acme] [hello, bye]"
  let ?lc = toLowerCase_ascii
  have 1: "CallTool ?lc ?d ''read-messages''
             (Some [''channel'' \<mapsto> JStr ''random'', ''limit'' \<mapsto> JNum 150])
           = ([], Inl (InvalidArguments [([''limit''], too_big)]))"
    using read_messages_limit
            [where obj = "[''channel'' \<mapsto> JStr ''random'', ''limit'' \<mapsto> JNum 150]"
               and n = 150 and client = ?d and toLowerCase = ?lc]
    by (auto simp: CallTool_def read_messages_tool_def ReadMessagesSchema_parse_def
          z_number_min_max_default_def z_string_def z_string_optional_def issues_of_def)
  have 2: "CallTool ?lc ?d ''read-messages''
             (Some [''channel'' \<mapsto> JStr ''random'', ''limit'' \<mapsto> JNum 0])
           = ([], Inl (InvalidArguments [([''limit''], too_small)]))"
    using read_messages_limit
            [where obj = "[''channel'' \<mapsto> JStr ''random'', ''limit'' \<mapsto> JNum 0]"
               and n = 0 and client = ?d and toLowerCase = ?lc]
    by (auto simp: CallTool_def read_messages_tool_def ReadMessagesSchema_parse_def
          z_number_min_max_default_def z_string_def z_string_optional_def issues_of_def)
  have 3: "z_number_min_max_default ''limit''
             ([''channel'' \<mapsto> JStr ''random'', ''limit'' \<mapsto> JNum 5] ''limit'') = Inr 5"
    using read_messages_limit
            [where obj = "[''channel'' \<mapsto> JStr ''random'', ''limit'' \<mapsto> JNum 5]"
               and n = 5 and client = ?d and toLowerCase = ?lc]
    by simp
  have 4: "CallTool ?lc ?d ''read-messages'' (Some [''channel'' \<mapsto> JStr ''random''])
           = CallTool ?lc ?d ''read-messages''
               (Some [''channel'' \<mapsto> JStr ''random'', ''limit'' \<mapsto> JNum 50])"
    using read_messages_limit
            [where obj = "[''channel'' \<mapsto> JStr ''random'']"
               and n = 0 and client = ?d and toLowerCase = ?lc]
    by simp
  from 1 2 3 4 show ?thesis by blast
qed

text \<open>
  C7 as stated fails in that the limit need not be an integer: the limit 3/2 passes the
  validation and is the limit of the fetch of the messages.
\<close>

theorem read_messages_limit_counterexample:
  "ReadMessagesSchema_parse (Some [''channel'' \<mapsto> JStr ''random'', ''limit'' \<mapsto> JNum (3 / 2)])
     = Inr \<lparr>read_server = None, read_channel = ''random'', read_limit = 3 / 2\<rparr> \<and>
   fst (CallTool toLowerCase_ascii (directory [acme] [hello, bye]) ''read-messages''
          (Some [''channel'' \<mapsto> JStr ''random'', ''limit'' \<mapsto> JNum (3 / 2)]))
     = [ChannelsFetch ''random'', MessagesFetch ''C2'' (3 / 2)]"
  by (simp add: example_defs model_defs CallTool_def read_messages_tool_def
        ReadMessagesSchema_parse_def z_number_min_max_default_def z_string_def
        z_string_optional_def issues_of_def)

text \<open>
  C8, as the code has it. A successful \<open>read-messages\<close> asks the platform for \<open>limit\<close>
  messages of the resolved channel and returns the array of the projections of the
  messages that the platform delivers: one object for each delivered message, in the
  order of delivery, and none is cut off. Each object has the keys \<open>channel\<close>,
  \<open>server\<close>, \<open>author\<close>, \<open>content\<close> and \<open>timestamp\<close> and no other; \<open>channel\<close> is the
  name of the resolved channel after a \<open>#\<close>, and \<open>server\<close> is the name that the
  channel's reference to its server carries (\<open>channel.guild.name\<close>). The channel
  carries the ID of the resolved server or is one of its cached channels, and where
  the references of the directory are consistent \<open>server\<close> is the name of the resolved
  server.
\<close>

theorem read_messages_result:
  assumes "CallTool toLowerCase client ''read-messages'' args = (es, Inr result)"
  shows "\<exists>a guild channel messages.
           ReadMessagesSchema_parse args = Inr a \<and>
           findClan toLowerCase client None = ([], Inr guild) \<and>
           snd (findChannel toLowerCase client (read_channel a) None) = Inr channel \<and>
           (guild_id channel = clan_id guild \<or> channel \<in> set (channels_cache guild)) \<and>
           messages_fetch client channel (read_limit a) = Resolves messages \<and>
           es = [ChannelsFetch (read_channel a),
                 MessagesFetch (channel_id channel) (read_limit a)] \<and>
           result = JsonText (JArr (map (\<lambda>msg.
                      JObj [(''channel'', JStr (CHR ''#'' # channel_name channel)),
                            (''server'', JStr (guild_name channel)),
                            (''author'', JStr (author_tag msg)),
                            (''content'', JStr (content msg)),
                            (''timestamp'', JStr (createdAt_toISOString msg))]) messages)) \<and>
           (guild_references_consistent client \<longrightarrow> guild_name channel = clan_name guild)"
proof -
  from assms have rm: "read_messages_tool toLowerCase client args = (es, Inr result)"
    by (simp add: CallTool_def)
  then obtain a where a: "ReadMessagesSchema_parse args = Inr a"
    by (cases "ReadMessagesSchema_parse args") (auto simp: read_messages_tool_def)
  obtain es1 r where fc: "findChannel toLowerCase client (read_channel a) None = (es1, r)"
    by (cases "findChannel toLowerCase client (read_channel a) None")
  with rm a obtain channel where ch: "r = Inr channel"
    by (cases r) (auto simp: read_messages_tool_def)
  from rm a fc ch obtain messages where
    ms: "messages_fetch client channel (read_limit a) = Resolves messages"
    and res: "result = JsonText (JArr (map (formatMessage channel) messages))"
    and es: "es = es1 @ [MessagesFetch (channel_id channel) (read_limit a)]"
    by (cases "messages_fetch client channel (read_limit a)")
       (auto simp: read_messages_tool_def)
  from findChannel_Inr [of toLowerCase client "read_channel a" None es1 channel] fc ch
  obtain es' guild where
    g: "findClan toLowerCase client None = (es', Inr guild)"
    and es1: "es1 = es' @ [ChannelsFetch (read_channel a)]"
    and alt: "channels_fetch client (read_channel a) = Resolves (Some channel) \<and>
                guild_id channel = clan_id guild \<or>
              channel \<in> set (channels_cache guild)"
    by auto
  from findClan_unspecified_Inr [OF g] have e: "es' = []" and cl: "clans client = [guild]"
    by simp_all
  have name: "guild_name channel = clan_name guild" if "guild_references_consistent client"
    using that alt cl unfolding guild_references_consistent_def by auto
  from alt have alt': "guild_id channel = clan_id guild \<or> channel \<in> set (channels_cache guild)"
    by blast
  from a g e fc ch ms res es es1 name alt' show ?thesis
    by (auto simp: formatMessage_def)
qed

theorem read_messages_result_witness:
  "CallTool toLowerCase_ascii (directory [acme] [hello, bye]) ''read-messages''
       (Some [''channel'' \<mapsto> JStr ''Random'', ''limit'' \<mapsto> JNum 1])
     = ([ChannelsFetch ''Random'', MessagesFetch ''C2'' 1],
        Inr (JsonText (JArr
          [JObj [(''channel'', JStr ''#random''), (''server'', JStr ''Acme''),
                 (''author'', JStr ''ann#1''), (''content'', JStr ''hello''),
                 (''timestamp'', JStr ''2025-01-01T00:00:00.000Z'')]]))) \<and>
   guild_references_consistent (directory [acme] [hello, bye]) \<and>
   clan_name acme = ''Acme''"
proof -
  let ?d = "directory [acme] [hello, bye]"
  let ?lc = toLowerCase_ascii
  let ?args = "Some [''channel'' \<mapsto> JStr ''Random'', ''limit'' \<mapsto> JNum 1]"
  have p: "ReadMessagesSchema_parse ?args
             = Inr \<lparr>read_server = None, read_channel = ''Random'', read_limit = 1\<rparr>"
    by (simp add: ReadMessagesSchema_parse_def z_number_min_max_default_def z_string_def
          z_string_optional_def issues_of_def)
  have c: "findChannel ?lc ?d ''Random'' None
             = ([ChannelsFetch ''Random''], Inr (text_channel ''C2'' ''random'' acme))"
    by (simp add: example_defs model_defs)
  have m: "messages_fetch ?d (text_channel ''C2'' ''random'' acme) 1 = Resolves [hello]"
    by (simp add: directory_def)
  have r: "CallTool ?lc ?d ''read-messages'' ?args
             = ([ChannelsFetch ''Random'', MessagesFetch ''C2'' 1],
                Inr (JsonText (JArr (map (formatMessage (text_channel ''C2'' ''random'' acme))
                                       [hello]))))"
    by (simp add: CallTool_def read_messages_tool_def p c m) (simp add: text_channel_def)
  have f: "map (formatMessage (text_channel ''C2'' ''random'' acme)) [hello]
             = [JObj [(''channel'', JStr ''#random''), (''server'', JStr ''Acme''),
                 (''author'', JStr ''ann#1''), (''content'', JStr ''hello''),
                 (''timestamp'', JStr ''2025-01-01T00:00:00.000Z'')]]"
    by (simp add: formatMessage_def example_defs)
  have g: "guild_references_consistent ?d"
    by (rule acme_consistent)
  have n: "clan_name acme = ''Acme''"
    by (simp add: example_defs)
  from read_messages_result [OF r] r f g n show ?thesis
    by simp
qed

text \<open>
  C8 as stated fails where the platform does not keep to the limit: asked for one
  message, a platform that delivers three makes the handler return three objects.
  And the field \<open>server\<close> is read from the channel: for a fetched channel that
  carries the ID of the resolved server Acme under the name \<open>Acme Ltd\<close>, the object
  has the server \<open>Acme Ltd\<close>.
\<close>

theorem read_messages_result_counterexample:
  "CallTool toLowerCase_ascii overdelivering ''read-messages''
       (Some [''channel'' \<mapsto> JStr ''random'', ''limit'' \<mapsto> JNum 1])
     = ([ChannelsFetch ''random'', MessagesFetch ''C2'' 1],
        Inr (JsonText (JArr (map (formatMessage (text_channel ''C2'' ''random'' acme))
                               [hello, bye, hello])))) \<and>
   length (map (formatMessage (text_channel ''C2'' ''random'' acme)) [hello, bye, hello]) = 3 \<and>
   findClan toLowerCase_ascii stale None = ([], Inr acme) \<and>
   clan_name acme = ''Acme'' \<and>
   CallTool toLowerCase_ascii stale ''read-messages''
       (Some [''channel'' \<mapsto> JStr ''C1'', ''limit'' \<mapsto> JNum 1])
     = ([ChannelsFetch ''C1'', MessagesFetch ''C1'' 1],
        Inr (JsonText (JArr
          [JObj [(''channel'', JStr ''#general''), (''server'', JStr ''Acme Ltd''),
                 (''author'', JStr ''ann#1''), (''content'', JStr ''hello''),
                 (''timestamp'', JStr ''2025-01-01T00:00:00.000Z'')]])))"
  by (simp add: example_defs model_defs CallTool_def read_messages_tool_def
        ReadMessagesSchema_parse_def z_number_min_max_default_def z_string_def
        z_string_optional_def issues_of_def formatMessage_def)

section \<open>Failures and the process\<close>




end
